theory Spec2Isabelle
  imports Main "HOL-Library.Sublist" "HOL-Library.Monad_Syntax"
begin

section \<open>Go strings\<close>

text \<open>
  A Go string is a byte sequence, modelled as a \<open>char list\<close>.  The functions of package
  \<open>strings\<close> that the generator calls are written out here after their documented
  behaviour.  White space is the six ASCII bytes of Go's \<open>asciiSpace\<close> table; the
  multi-byte Unicode spaces that \<open>strings.TrimSpace\<close> also removes, and the
  non-ASCII case mappings of \<open>strings.ToLower\<close>, are outside the model.
\<close>

text \<open>\<open>strings.Index\<close>: the byte offset of the first occurrence, \<open>None\<close> for Go's \<open>-1\<close>.\<close>

fun Index :: "string \<Rightarrow> string \<Rightarrow> nat option" where
  "Index [] sep = (if sep = [] then Some 0 else None)"
| "Index (c # cs) sep =
     (if prefix sep (c # cs) then Some 0 else map_option Suc (Index cs sep))"

definition Contains :: "string \<Rightarrow> string \<Rightarrow> bool" where
  "Contains s sub = (Index s sub \<noteq> None)"

text \<open>
  \<open>strings.Split\<close>: the pieces between consecutive non-overlapping occurrences of the
  separator, found from the left.  With an empty separator Go explodes the string.
\<close>

function Split :: "string \<Rightarrow> string \<Rightarrow> string list" where
  "Split s sep =
     (if sep = [] then map (\<lambda>c. [c]) s
      else case Index s sep of
             None \<Rightarrow> [s]
           | Some i \<Rightarrow> take i s # Split (drop (i + length sep) s) sep)"
  by pat_completeness auto

termination Split
proof (relation "measure (\<lambda>(s, sep). length s)")
  show "wf (measure (\<lambda>(s, sep). length s))" by simp
next
  fix s sep :: string and i
  assume sep: "sep \<noteq> []" and idx: "Index s sep = Some i"
  have bound: "Index t sep = Some j \<Longrightarrow> j + length sep \<le> length t" for t j
  proof (induction t arbitrary: j)
    case Nil
    then show ?case by (simp split: if_splits)
  next
    case (Cons c cs)
    show ?case
    proof (cases "prefix sep (c # cs)")
      case True
      then have "length sep \<le> length (c # cs)" by (rule prefix_length_le)
      with True Cons.prems show ?thesis by simp
    next
      case False
      with Cons.prems obtain k where "Index cs sep = Some k" "j = Suc k"
        by auto
      with Cons.IH show ?thesis by fastforce
    qed
  qed
  from idx have "i + length sep \<le> length s" by (rule bound)
  moreover from sep have "0 < length sep" by simp
  ultimately have "length s - (i + length sep) < length s"
    by arith
  then have "length (drop (i + length sep) s) < length s"
    by (simp only: length_drop)
  then show "((drop (i + length sep) s, sep), (s, sep)) \<in> measure (\<lambda>(s, sep). length s)"
    by simp
qed

declare Split.simps [simp del]

text \<open>\<open>strings.SplitN(s, sep, 2)\<close>: at most two pieces, cut at the first separator.\<close>

definition SplitN2 :: "string \<Rightarrow> string \<Rightarrow> string list" where
  "SplitN2 s sep =
     (case Index s sep of
        None \<Rightarrow> [s]
      | Some i \<Rightarrow> [take i s, drop (i + length sep) s])"

definition isSpace :: "char \<Rightarrow> bool" where
  "isSpace c = (c = CHR 0x09 \<or> c = CHR 0x0A \<or> c = CHR 0x0B \<or> c = CHR 0x0C
                \<or> c = CHR 0x0D \<or> c = CHR 0x20)"

definition TrimSpace :: "string \<Rightarrow> string" where
  "TrimSpace s = rev (dropWhile isSpace (rev (dropWhile isSpace s)))"

text \<open>\<open>strings.ReplaceAll(s, old, "")\<close> and the two one-byte replacers, for single bytes.\<close>

definition removeBytes :: "char list \<Rightarrow> string \<Rightarrow> string" where
  "removeBytes cs s = filter (\<lambda>c. c \<notin> set cs) s"

definition toLowerByte :: "char \<Rightarrow> char" where
  "toLowerByte c =
     (let n = (of_char c :: nat) in if 65 \<le> n \<and> n \<le> 90 then char_of (n + 32) else c)"

definition ToLower :: "string \<Rightarrow> string" where
  "ToLower s = map toLowerByte s"


text \<open>\<open>strings.Join\<close>.\<close>

fun joinWith :: "string \<Rightarrow> string list \<Rightarrow> string" where
  "joinWith sep [] = []"
| "joinWith sep [x] = x"
| "joinWith sep (x # y # ys) = x @ sep @ joinWith sep (y # ys)"

text \<open>Decimal printing, as \<open>strconv.Itoa\<close> and the zero-padded fields of \<open>time.Format\<close>.\<close>

definition digit :: "nat \<Rightarrow> char" where
  "digit d = char_of (48 + d)"

fun showNat :: "nat \<Rightarrow> string" where
  "showNat n = (if n < 10 then [digit n] else showNat (n div 10) @ [digit (n mod 10)])"

declare showNat.simps [simp del]

definition showInt :: "int \<Rightarrow> string" where
  "showInt i = (if i < 0 then CHR ''-'' # showNat (nat (- i)) else showNat (nat i))"

definition pad :: "nat \<Rightarrow> nat \<Rightarrow> string" where
  "pad width n = replicate (width - length (showNat n)) CHR ''0'' @ showNat n"

definition isDigit :: "char \<Rightarrow> bool" where
  "isDigit c = (let n = (of_char c :: nat) in 48 \<le> n \<and> n \<le> 57)"

definition digitVal :: "char \<Rightarrow> nat" where
  "digitVal c = of_char c - 48"

definition decimal :: "string \<Rightarrow> nat" where
  "decimal s = foldl (\<lambda>acc c. 10 * acc + digitVal c) 0 s"

section \<open>Paths\<close>

text \<open>
  \<open>filepath.Clean\<close> and \<open>filepath.Join\<close> on a Unix system.  \<open>Clean\<close> works on the
  components between slashes: empty components and \<open>.\<close> disappear, \<open>..\<close> removes the
  component before it, and is kept at the start of a path that is not rooted.
\<close>

fun splitOn :: "char \<Rightarrow> string \<Rightarrow> string list" where
  "splitOn c [] = [[]]"
| "splitOn c (x # xs) =
     (if x = c then [] # splitOn c xs
      else case splitOn c xs of
             [] \<Rightarrow> [[x]]
           | y # ys \<Rightarrow> (x # y) # ys)"

definition cleanStep :: "bool \<Rightarrow> string list \<Rightarrow> string \<Rightarrow> string list" where
  "cleanStep rooted st el =
     (if el = [] \<or> el = ''.'' then st
      else if el = ''..'' then
        (case st of
           [] \<Rightarrow> if rooted then [] else [''..'']
         | t # ts \<Rightarrow> if t = ''..'' then ''..'' # st else ts)
      else el # st)"

definition Clean :: "string \<Rightarrow> string" where
  "Clean path =
     (if path = [] then ''.''
      else let rooted = (hd path = CHR ''/'');
               body = joinWith ''/'' (rev (foldl (cleanStep rooted) [] (splitOn CHR ''/'' path)))
           in if rooted then CHR ''/'' # body
              else if body = [] then ''.'' else body)"

definition Join :: "string list \<Rightarrow> string" where
  "Join elem =
     (case dropWhile (\<lambda>e. e = []) elem of
        [] \<Rightarrow> []
      | e # es \<Rightarrow> Clean (joinWith ''/'' (e # es)))"



section \<open>Results, the file system and the log\<close>

text \<open>
  A Go call that returns \<open>(value, error)\<close> yields \<open>Ok\<close> or \<open>Err\<close>; a run-time panic is
  a third outcome, which no caller in this program recovers from.
\<close>

datatype error = ErrNotExist | ErrPermission | ErrWrite | ErrSyntax

datatype 'a result = Ok 'a | Err error | Panic

datatype log_event =
    UnableToParse string error
  | UnableToCreate string error
  | UnableToWrite string error
  | UnableToReadKubeHunter error
  | Fatal error
  | FatalKubeHunterWrite error
  | Generating string
  | Printed error

text \<open>
  The part of the machine the generator touches: regular files and their bytes, the
  sorted listing of each directory, the paths that cannot be opened or created for
  writing, the paths on which a write through an open file fails, and the lines sent
  to the logger and to standard output so far.  A write through a failing path writes
  no byte.  The passes write below their output directory only; the listings are those
  of the input directories.
\<close>

record world =
  files :: "string \<rightharpoonup> string"
  dirs :: "string \<rightharpoonup> string list"
  blocked :: "string set"
  failing :: "string set"
  logs :: "log_event list"

definition logEvent :: "log_event \<Rightarrow> world \<Rightarrow> world" where
  "logEvent e w = w\<lparr>logs := logs w @ [e]\<rparr>"

definition ReadFile :: "world \<Rightarrow> string \<Rightarrow> string result" where
  "ReadFile w name = (case files w name of None \<Rightarrow> Err ErrNotExist | Some b \<Rightarrow> Ok b)"

definition ReadDir :: "world \<Rightarrow> string \<Rightarrow> string list result" where
  "ReadDir w dir = (case dirs w dir of None \<Rightarrow> Err ErrNotExist | Some names \<Rightarrow> Ok names)"

text \<open>An open file is its name and the offset of the next write.\<close>

type_synonym handle = "string \<times> nat"

text \<open>\<open>os.OpenFile(name, O_RDWR|O_CREATE, 0644)\<close>: an existing file keeps its bytes.\<close>

definition OpenFile :: "string \<Rightarrow> world \<Rightarrow> handle result \<times> world" where
  "OpenFile name w =
     (if name \<in> blocked w then (Err ErrPermission, w)
      else case files w name of
             None \<Rightarrow> (Ok (name, 0), w\<lparr>files := (files w)(name \<mapsto> [])\<rparr>)
           | Some _ \<Rightarrow> (Ok (name, 0), w))"

text \<open>\<open>os.Create\<close>: the file is created, or truncated when it exists.\<close>

definition Create :: "string \<Rightarrow> world \<Rightarrow> handle result \<times> world" where
  "Create name w =
     (if name \<in> blocked w then (Err ErrPermission, w)
      else (Ok (name, 0), w\<lparr>files := (files w)(name \<mapsto> [])\<rparr>))"

text \<open>\<open>os.Truncate(name, 0)\<close>; the caller drops its error.\<close>

definition Truncate0 :: "string \<Rightarrow> world \<Rightarrow> world" where
  "Truncate0 name w =
     (case files w name of
        None \<Rightarrow> w
      | Some _ \<Rightarrow> w\<lparr>files := (files w)(name \<mapsto> [])\<rparr>)"

text \<open>
  A write through an open file replaces the bytes from the file's offset on and keeps
  what lies beyond the written range; a gap before the offset reads as zero bytes.
\<close>

definition writeAt :: "string \<Rightarrow> nat \<Rightarrow> string \<Rightarrow> string" where
  "writeAt old off bytes =
     take off old @ replicate (off - length old) (CHR 0x00) @ bytes
       @ drop (off + length bytes) old"

definition Write :: "handle \<Rightarrow> string \<Rightarrow> world \<Rightarrow> handle result \<times> world" where
  "Write f bytes w =
     (case f of (name, off) \<Rightarrow>
        if name \<in> failing w then (Err ErrWrite, w)
        else let old = (case files w name of None \<Rightarrow> [] | Some b \<Rightarrow> b)
             in (Ok (name, off + length bytes),
                 w\<lparr>files := (files w)(name \<mapsto> writeAt old off bytes)\<rparr>))"


section \<open>Preserved content\<close>

definition marker :: string where
  "marker = ''<!--- Add Aqua content below --->''"

text \<open>
  \<open>GetCustomContentFromMarkdown\<close>.  The error of \<open>ioutil.ReadFile\<close> is dropped and
  the nil slice it returns with an error converts to the empty string.
\<close>

definition GetCustomContentFromMarkdown :: "world \<Rightarrow> string \<Rightarrow> string" where
  "GetCustomContentFromMarkdown w fileName =
     (let b = (case ReadFile w fileName of Ok b \<Rightarrow> b | _ \<Rightarrow> []);
          content = Split b marker
      in if length content = 0 \<or> length content = 1 then []
         else TrimSpace (content ! 1))"

section \<open>Records of the generator\<close>

text \<open>
  A \<open>float64\<close> is carried as the text that \<open>text/template\<close> prints for it; the zero
  value prints as \<open>0\<close>.
\<close>

type_synonym float64 = string

record Dates =
  Published :: string
  Modified :: string

record CVSS =
  V2Vector :: string
  V2Score :: float64
  V3Vector :: string
  V3Score :: float64

record RelatedAttackPattern =
  CAPECID :: int

record Mitigation =
  Phase :: "string list"
  Strategy :: string
  MDescription :: "string list"

record Consequence =
  Scope :: "string list"
  Impact :: "string list"

record WeaknessType =
  WID :: int
  WName :: string
  WDescription :: string
  PotentialMitigations :: "Mitigation list"
  RelatedAttackPatterns :: "RelatedAttackPattern list"
  CommonConsequences :: "Consequence list"
  ExtendedDescription :: "string list"

record Vulnerability =
  ID :: string
  CWEID :: string
  CWEInfo :: WeaknessType
  Description :: string
  References :: "string list"
  CVSS :: CVSS
  Dates :: Dates

record VulnerabilityPost =
  Layout :: string
  Title :: string
  By :: string
  Date :: string
  Vulnerability :: Vulnerability

record Rego =
  RID :: string
  RDescription :: string
  Links :: "string list"
  Severity :: string
  Policy :: string
  RecommendedActions :: string

record RegoPost =
  RLayout :: string
  RTitle :: string
  RBy :: string
  RDate :: string
  Rego :: Rego

text \<open>The zero values of Go.\<close>

definition zeroWeaknessType :: WeaknessType where
  "zeroWeaknessType =
     \<lparr>WID = 0, WName = [], WDescription = [], PotentialMitigations = [],
      RelatedAttackPatterns = [], CommonConsequences = [], ExtendedDescription = []\<rparr>"

definition zeroRegoPost :: RegoPost where
  "zeroRegoPost =
     \<lparr>RLayout = [], RTitle = [], RBy = [], RDate = [],
      Rego = \<lparr>RID = [], RDescription = [], Links = [], Severity = [], Policy = [],
              RecommendedActions = []\<rparr>\<rparr>"

section \<open>JSON values of fastjson\<close>

text \<open>
  What \<open>fastjson.Parser.ParseBytes\<close> returns.  The parser keeps the text of a string
  as it stands between its quotes and unescapes it only when the string is read, so a
  string node carries both: the raw text, which \<open>Value.String\<close> prints back, and the
  unescaped value, which \<open>GetStringBytes\<close> returns.  A number carries its text.  Object
  keys are compared as written.
\<close>

datatype json =
    JObject "(string \<times> json) list"
  | JArray "json list"
  | JString (raw: string) (unescaped: string)
  | JNumber string
  | JTrue
  | JFalse
  | JNull

text \<open>
  Behaviour taken from outside the repository: the JSON parser, the printing of the
  float that a number text denotes, and \<open>json.Unmarshal\<close> into a \<open>WeaknessType\<close>.
\<close>

record lib =
  fastjson_ParseBytes :: "string \<Rightarrow> json option"
  formatFloat :: "string \<Rightarrow> float64"
  json_Unmarshal :: "string \<Rightarrow> WeaknessType option"

text \<open>\<open>strconv.Atoi\<close>: an optional sign and decimal digits, within 64 bits.\<close>

definition Atoi :: "string \<Rightarrow> int option" where
  "Atoi s =
     (let neg = (s \<noteq> [] \<and> hd s = CHR ''-'');
          ds = (if s \<noteq> [] \<and> (hd s = CHR ''-'' \<or> hd s = CHR ''+'') then tl s else s);
          n = (if neg then - int (decimal ds) else int (decimal ds))
      in if ds = [] \<or> \<not> list_all isDigit ds then None
         else if n < - (2 ^ 63) \<or> 2 ^ 63 \<le> n then None
         else Some n)"

text \<open>\<open>Value.Get(keys...)\<close>; \<open>None\<close> is the nil value.\<close>

fun Get :: "json option \<Rightarrow> string list \<Rightarrow> json option" where
  "Get None keys = None"
| "Get (Some v) [] = Some v"
| "Get (Some v) (key # keys) =
     (case v of
        JObject kvs \<Rightarrow> Get (map_of kvs key) keys
      | JArray a \<Rightarrow>
          (case Atoi key of
             None \<Rightarrow> None
           | Some n \<Rightarrow>
               if n < 0 \<or> int (length a) \<le> n then None
               else Get (Some (a ! nat n)) keys)
      | _ \<Rightarrow> None)"

definition GetStringBytes :: "json \<Rightarrow> string list \<Rightarrow> string" where
  "GetStringBytes v keys =
     (case Get (Some v) keys of Some (JString r s) \<Rightarrow> s | _ \<Rightarrow> [])"

definition GetFloat64 :: "lib \<Rightarrow> json \<Rightarrow> string list \<Rightarrow> float64" where
  "GetFloat64 l v keys =
     (case Get (Some v) keys of Some (JNumber r) \<Rightarrow> formatFloat l r | _ \<Rightarrow> ''0'')"

definition GetArray :: "json \<Rightarrow> string list \<Rightarrow> json list" where
  "GetArray v keys = (case Get (Some v) keys of Some (JArray a) \<Rightarrow> a | _ \<Rightarrow> [])"

text \<open>\<open>Value.MarshalTo\<close>, which \<open>Value.String\<close> calls.\<close>

fun MarshalTo :: "json \<Rightarrow> string" where
  "MarshalTo (JString r s) = CHR 0x22 # r @ [CHR 0x22]"
| "MarshalTo (JNumber r) = r"
| "MarshalTo JTrue = ''true''"
| "MarshalTo JFalse = ''false''"
| "MarshalTo JNull = ''null''"
| "MarshalTo (JArray a) = ''['' @ joinWith '','' (map MarshalTo a) @ '']''"
| "MarshalTo (JObject kvs) =
     ''{'' @ joinWith '','' (map (\<lambda>kv. CHR 0x22 # fst kv @ [CHR 0x22] @ '':'' @ MarshalTo (snd kv)) kvs)
       @ ''}''"

text \<open>\<open>Value.String\<close> dereferences its receiver: on the nil value it panics.\<close>

definition String :: "json option \<Rightarrow> string result" where
  "String v = (case v of None \<Rightarrow> Panic | Some u \<Rightarrow> Ok (MarshalTo u))"

section \<open>Time stamps\<close>

text \<open>
  \<open>time.Parse\<close> with the layout \<open>2006-01-02T04:05Z\<close> that the generator passes: a
  four-digit year, a two-digit month and day, \<open>T\<close>, then two digits read as the
  minute and two read as the second (the layout names no hour), an optional fraction
  of a second (after a period or, from Go 1.17 on, a comma), and the letter \<open>Z\<close>.
  \<open>None\<close> stands for the error, with which Go returns the zero time.
\<close>

record gotime =
  year :: nat
  month :: nat
  day :: nat
  hour :: nat
  minute :: nat
  second :: nat

definition zeroTime :: gotime where
  "zeroTime = \<lparr>year = 1, month = 1, day = 1, hour = 0, minute = 0, second = 0\<rparr>"

definition getnum :: "string \<Rightarrow> (nat \<times> string) option" where
  "getnum s =
     (case s of
        a # b # rest \<Rightarrow>
          if isDigit a \<and> isDigit b then Some (10 * digitVal a + digitVal b, rest) else None
      | _ \<Rightarrow> None)"

definition skip :: "char \<Rightarrow> string \<Rightarrow> string option" where
  "skip c s = (case s of [] \<Rightarrow> None | x # xs \<Rightarrow> if x = c then Some xs else None)"

definition isLeap :: "nat \<Rightarrow> bool" where
  "isLeap y = (y mod 4 = 0 \<and> (y mod 100 \<noteq> 0 \<or> y mod 400 = 0))"

definition daysIn :: "nat \<Rightarrow> nat \<Rightarrow> nat" where
  "daysIn m y =
     (if m = 2 then (if isLeap y then 29 else 28)
      else if m = 4 \<or> m = 6 \<or> m = 9 \<or> m = 11 then 30 else 31)"

definition skipFraction :: "string \<Rightarrow> string" where
  "skipFraction s =
     (case s of
        p # d # rest \<Rightarrow>
          if (p = CHR ''.'' \<or> p = CHR '','') \<and> isDigit d then dropWhile isDigit rest else s
      | _ \<Rightarrow> s)"

definition time_Parse :: "string \<Rightarrow> gotime option" where
  "time_Parse v0 =
     (if length v0 < 4 \<or> \<not> list_all isDigit (take 4 v0) then None
      else do {
        let y = decimal (take 4 v0);
        v1 \<leftarrow> skip CHR ''-'' (drop 4 v0);
        (mo, v2) \<leftarrow> getnum v1;
        v3 \<leftarrow> (if mo = 0 \<or> 12 < mo then None else skip CHR ''-'' v2);
        (d, v4) \<leftarrow> getnum v3;
        v5 \<leftarrow> skip CHR ''T'' v4;
        (mi, v6) \<leftarrow> getnum v5;
        v7 \<leftarrow> (if 60 \<le> mi then None else skip CHR '':'' v6);
        (se, v8) \<leftarrow> getnum v7;
        v9 \<leftarrow> (if 60 \<le> se then None else skip CHR ''Z'' (skipFraction v8));
        if v9 = [] \<and> 1 \<le> d \<and> d \<le> daysIn mo y
        then Some \<lparr>year = y, month = mo, day = d, hour = 0, minute = mi, second = se\<rparr>
        else None
      })"

text \<open>\<open>Format("2006-01-02T15:04Z")\<close> and \<open>Format("2006-01-02 03:04:05 -0700")\<close> of a UTC time.\<close>

definition formatStamp :: "gotime \<Rightarrow> string" where
  "formatStamp t =
     pad 4 (year t) @ ''-'' @ pad 2 (month t) @ ''-'' @ pad 2 (day t) @ ''T''
       @ pad 2 (hour t) @ '':'' @ pad 2 (minute t) @ ''Z''"

definition formatPostDate :: "gotime \<Rightarrow> string" where
  "formatPostDate t =
     pad 4 (year t) @ ''-'' @ pad 2 (month t) @ ''-'' @ pad 2 (day t) @ '' ''
       @ pad 2 (if hour t mod 12 = 0 then 12 else hour t mod 12) @ '':'' @ pad 2 (minute t)
       @ '':'' @ pad 2 (second t) @ '' +0000''"

section \<open>Parsing a vulnerability\<close>

text \<open>The reference loop: the JSON text of each \<open>url\<close> with its double quotes removed.\<close>

fun referenceURLs :: "json list \<Rightarrow> string list result" where
  "referenceURLs [] = Ok []"
| "referenceURLs (r # rs) =
     (case String (Get (Some r) [''url'']) of
        Ok u \<Rightarrow>
          (case referenceURLs rs of
             Ok refs \<Rightarrow> Ok (removeBytes [CHR 0x22] u # refs)
           | other \<Rightarrow> other)
      | Err e \<Rightarrow> Err e
      | Panic \<Rightarrow> Panic)"

definition ParseVulnerabilityJSONFile :: "lib \<Rightarrow> world \<Rightarrow> string \<Rightarrow> VulnerabilityPost result" where
  "ParseVulnerabilityJSONFile l w fileName =
     (case ReadFile w fileName of
        Err e \<Rightarrow> Err e
      | Panic \<Rightarrow> Panic
      | Ok b \<Rightarrow>
     (case fastjson_ParseBytes l b of
        None \<Rightarrow> Err ErrSyntax
      | Some v \<Rightarrow>
          let description = removeBytes [CHR 0x22, CHR 0x5C]
                (GetStringBytes v [''cve'', ''description'', ''description_data'', ''0'', ''value'']);
              vid = GetStringBytes v [''cve'', ''CVE_data_meta'', ''ID''];
              cweid = GetStringBytes v
                [''cve'', ''problemtype'', ''problemtype_data'', ''0'', ''description'', ''0'', ''value''];
              cvss = \<lparr>V2Vector = GetStringBytes v [''impact'', ''baseMetricV2'', ''cvssV2'', ''vectorString''],
                      V2Score = GetFloat64 l v [''impact'', ''baseMetricV2'', ''cvssV2'', ''baseScore''],
                      V3Vector = GetStringBytes v [''impact'', ''baseMetricV3'', ''cvssV3'', ''vectorString''],
                      V3Score = GetFloat64 l v [''impact'', ''baseMetricV3'', ''cvssV3'', ''baseScore'']\<rparr>;
              publishedDate = (case time_Parse (GetStringBytes v [''publishedDate'']) of
                                 None \<Rightarrow> zeroTime | Some t \<Rightarrow> t);
              modifiedDate = (case time_Parse (GetStringBytes v [''lastModifiedDate'']) of
                                None \<Rightarrow> zeroTime | Some t \<Rightarrow> t);
              dates = \<lparr>Published = formatStamp publishedDate, Modified = formatStamp modifiedDate\<rparr>
          in case referenceURLs (GetArray v [''cve'', ''references'', ''reference_data'']) of
               Err e \<Rightarrow> Err e
             | Panic \<Rightarrow> Panic
             | Ok refs \<Rightarrow>
                 Ok \<lparr>Layout = ''vulnerability'', Title = vid, By = ''NVD'',
                     Date = formatPostDate publishedDate,
                     Vulnerability =
                       \<lparr>ID = vid, CWEID = cweid, CWEInfo = zeroWeaknessType,
                        Description = description, References = refs, CVSS = cvss,
                        Dates = dates\<rparr>\<rparr>))"

section \<open>Rendering a vulnerability\<close>

text \<open>
  The execution of \<open>vulnerabilityPostTemplate\<close> by \<open>text/template\<close>, action by
  action.  A field prints as it is, without escaping; \<open>if\<close> holds for a non-empty
  string or slice; \<open>{{-\<close> removes the white space of the text before it; a slice of
  strings prints between brackets with spaces between its elements.
\<close>

definition printStrings :: "string list \<Rightarrow> string" where
  "printStrings xs = ''['' @ joinWith '' '' xs @ '']''"

definition cweSections :: "WeaknessType \<Rightarrow> string" where
  "cweSections c =
     (if WName c \<noteq> [] then ''\<newline>#### Title\<newline>'' @ WName c @ ''\<newline>'' else [])
     @ (if WDescription c \<noteq> [] then ''\<newline>#### Description\<newline>'' @ WDescription c @ ''\<newline>''
        else [])
     @ (if ExtendedDescription c \<noteq> [] then
          ''\<newline>#### Extended Description''
            @ concat (map (\<lambda>ed. ''\<newline>'' @ ed) (ExtendedDescription c)) @ ''\<newline>''
        else [])
     @ (if CommonConsequences c \<noteq> [] then
          ''\<newline>#### Common Consequences''
            @ concat (map (\<lambda>cons. ''\<newline>Scope: '' @ printStrings (Scope cons)
                                   @ ''\<newline>\<newline>Impact: '' @ printStrings (Impact cons) @ ''\<newline>'')
                        (CommonConsequences c))
            @ ''\<newline>''
        else [])
     @ (if PotentialMitigations c \<noteq> [] then
          ''\<newline>#### Potential Mitigations''
            @ concat (map (\<lambda>mitigation.
                             if MDescription mitigation \<noteq> [] then
                               concat (map (\<lambda>d. ''\<newline>- '' @ d) (MDescription mitigation))
                             else [])
                        (PotentialMitigations c))
            @ ''\<newline>''
        else [])
     @ (if RelatedAttackPatterns c \<noteq> [] then
          ''\<newline>#### Related Attack Patterns''
            @ concat (map (\<lambda>attack. ''\<newline>- https://cwe.mitre.org/data/definitions/''
                                     @ showInt (CAPECID attack) @ ''.html'')
                        (RelatedAttackPatterns c))
            @ ''\<newline>''
        else [])"

text \<open>The text outside the weakness sections, in the order of the template.\<close>

definition frontMatter :: "VulnerabilityPost \<Rightarrow> string" where
  \<open>frontMatter blog =
     ''---\<newline>title: "'' @ Title blog @ ''"\<newline>date: '' @ Date blog
     @ ''\<newline>draft: false\<newline>---\<newline>\<newline>''\<close>

definition descriptionSection :: "Vulnerability \<Rightarrow> string" where
  "descriptionSection v = ''### Description\<newline>'' @ Description v @ ''\<newline>\<newline>''"

definition cvssSection :: "CVSS \<Rightarrow> string" where
  "cvssSection c =
     ''\<newline>\<newline>### CVSS\<newline>| Version | Vector           | Score  |\<newline>''
     @ ''| ------------- |:-------------| -----:|\<newline>''
     @ ''| V2      | '' @ V2Vector c @ '' | '' @ V2Score c @ '' |\<newline>''
     @ ''| V3      | '' @ V3Vector c @ '' | '' @ V3Score c @ '' |\<newline>''"

definition datesSection :: "Dates \<Rightarrow> string" where
  "datesSection d =
     ''\<newline>### Dates\<newline>- Published: '' @ Published d @ ''\<newline>- Modified: '' @ Modified d"

definition referencesSection :: "string list \<Rightarrow> string" where
  "referencesSection refs =
     ''\<newline>\<newline>### References'' @ concat (map (\<lambda>element. ''\<newline>- '' @ element) refs)"

definition vulnerabilityPostTemplate :: "VulnerabilityPost \<Rightarrow> string" where
  "vulnerabilityPostTemplate blog =
     (let v = Vulnerability blog in
      frontMatter blog @ descriptionSection v @ cweSections (CWEInfo v) @ cvssSection (CVSS v)
      @ datesSection (Dates v) @ referencesSection (References v) @ ''\<newline>\<newline>'' @ marker)"

text \<open>
  \<open>VulnerabilityPostToMarkdown\<close>: the template is written through the open file, then
  a newline and the preserved content when there is some; the error of that second
  write is dropped.
\<close>

definition VulnerabilityPostToMarkdown ::
  "VulnerabilityPost \<Rightarrow> handle \<Rightarrow> string \<Rightarrow> world \<Rightarrow> error option \<times> world" where
  "VulnerabilityPostToMarkdown blog outputFile customContent w =
     (case Write outputFile (vulnerabilityPostTemplate blog) w of
        (Err e, w') \<Rightarrow> (Some e, w')
      | (Panic, w') \<Rightarrow> (Some ErrWrite, w')
      | (Ok f, w') \<Rightarrow>
          if customContent \<noteq> [] then
            (None, snd (Write f (''\<newline>'' @ customContent) w'))
          else (None, w'))"

section \<open>The vulnerability pass\<close>

text \<open>
  How a pass ends: it ran through its files, the process exited (\<open>log.Fatal\<close>,
  \<open>fail\<close>), or a panic went up through \<open>main\<close>.
\<close>

datatype outcome = Done world | Exited world | Panicked world

text \<open>The \<open>for ... range files\<close> loops: \<open>continue\<close> and the end of the body are \<open>Done\<close>.\<close>

fun forEach :: "(string \<Rightarrow> world \<Rightarrow> outcome) \<Rightarrow> string list \<Rightarrow> world \<Rightarrow> outcome" where
  "forEach body [] w = Done w"
| "forEach body (f # fs) w =
     (case body f w of
        Done w' \<Rightarrow> forEach body fs w'
      | other \<Rightarrow> other)"

definition GetAllFiles :: "world \<Rightarrow> string \<Rightarrow> string list result" where
  "GetAllFiles w dir = ReadDir w dir"

definition GetAllFilesOfKind :: "world \<Rightarrow> string \<Rightarrow> string \<Rightarrow> string \<Rightarrow> string list result" where
  "GetAllFilesOfKind w dir include exclude =
     (case GetAllFiles w dir of
        Ok fs \<Rightarrow> Ok (filter (\<lambda>f. Contains f include \<and> \<not> Contains f exclude) fs)
      | other \<Rightarrow> other)"

definition AddCWEInformation ::
  "lib \<Rightarrow> world \<Rightarrow> VulnerabilityPost \<Rightarrow> string \<Rightarrow> error option \<times> VulnerabilityPost" where
  "AddCWEInformation l w bp cweDir =
     (case ReadFile w (Join [cweDir, CWEID (Vulnerability bp) @ ''.json'']) of
        Ok b \<Rightarrow>
          (case json_Unmarshal l b of
             None \<Rightarrow> (Some ErrSyntax, bp)
           | Some wt \<Rightarrow> (None, bp\<lparr>Vulnerability := (Vulnerability bp)\<lparr>CWEInfo := wt\<rparr>\<rparr>))
      | Err e \<Rightarrow> (Some e, bp)
      | Panic \<Rightarrow> (Some ErrNotExist, bp))"

text \<open>
  The second half of the loop body of \<open>generateVulnerabilityPages\<close>: open or create
  the page, take the preserved content of what is there, truncate only when there is
  some, write, close.
\<close>

definition writeVulnerabilityPage :: "VulnerabilityPost \<Rightarrow> string \<Rightarrow> string \<Rightarrow> world \<Rightarrow> outcome" where
  "writeVulnerabilityPage bp postsDir file w =
     (case OpenFile (Join [postsDir, Title bp @ ''.md'']) w of
        (Err e, w1) \<Rightarrow> Done (logEvent (UnableToCreate file e) w1)
      | (Panic, w1) \<Rightarrow> Panicked w1
      | (Ok f, w1) \<Rightarrow>
          let customContent = GetCustomContentFromMarkdown w1 (fst f);
              w2 = (if customContent \<noteq> [] then Truncate0 (fst f) w1 else w1)
          in case VulnerabilityPostToMarkdown bp f customContent w2 of
               (Some e, w3) \<Rightarrow> Done (logEvent (UnableToWrite file e) w3)
             | (None, w3) \<Rightarrow> Done w3)"

definition vulnerabilityPage :: "lib \<Rightarrow> string \<Rightarrow> string \<Rightarrow> string \<Rightarrow> string \<Rightarrow> world \<Rightarrow> outcome" where
  "vulnerabilityPage l nvdDir cweDir postsDir file w =
     (case ParseVulnerabilityJSONFile l w (Join [nvdDir, file]) of
        Err e \<Rightarrow> Done (logEvent (UnableToParse file e) w)
      | Panic \<Rightarrow> Panicked w
      | Ok bp \<Rightarrow>
          writeVulnerabilityPage (snd (AddCWEInformation l w bp cweDir)) postsDir file w)"

definition generateVulnerabilityPages :: "lib \<Rightarrow> string \<Rightarrow> string \<Rightarrow> string \<Rightarrow> world \<Rightarrow> outcome" where
  "generateVulnerabilityPages l nvdDir cweDir postsDir w =
     (case GetAllFiles w nvdDir of
        Err e \<Rightarrow> Exited (logEvent (Fatal e) w)
      | Panic \<Rightarrow> Panicked w
      | Ok fs \<Rightarrow> forEach (vulnerabilityPage l nvdDir cweDir postsDir) fs w)"

section \<open>The Rego policy pass\<close>

definition metadataLine :: "RegoPost \<Rightarrow> string \<Rightarrow> RegoPost" where
  "metadataLine rp line =
     (let str = removeBytes ''@#'' line;
          kv = SplitN2 str '':''
      in if 2 \<le> length kv then
           let val = TrimSpace (kv ! 1);
               k = ToLower (TrimSpace (kv ! 0))
           in if k = ''id'' then rp\<lparr>RTitle := val\<rparr>
              else if k = ''description'' then rp\<lparr>Rego := (Rego rp)\<lparr>RDescription := val\<rparr>\<rparr>
              else if k = ''recommended_actions'' then
                rp\<lparr>Rego := (Rego rp)\<lparr>RecommendedActions := val\<rparr>\<rparr>
              else if k = ''severity'' then rp\<lparr>Rego := (Rego rp)\<lparr>Severity := val\<rparr>\<rparr>
              else if k = ''title'' then rp\<lparr>Rego := (Rego rp)\<lparr>RID := val\<rparr>\<rparr>
              else rp
         else rp)"

text \<open>
  \<open>ParseRegoPolicyFile\<close>.  When the file has no \<open>package main\<close>, \<open>strings.Index\<close>
  returns \<open>-1\<close> and the slice expression \<open>string(rego)[:idx]\<close> panics.  The date is
  \<open>time.Unix(1594669401, 0).UTC().String()\<close>.
\<close>

definition ParseRegoPolicyFile :: "world \<Rightarrow> string \<Rightarrow> RegoPost result" where
  "ParseRegoPolicyFile w fileName =
     (case ReadFile w fileName of
        Err e \<Rightarrow> Err e
      | Panic \<Rightarrow> Panic
      | Ok rego \<Rightarrow>
          (case Index rego ''package main'' of
             None \<Rightarrow> Panic
           | Some idx \<Rightarrow>
               let metadata = take idx rego;
                   rp = zeroRegoPost
                     \<lparr>RLayout := ''regoPolicy'', RBy := ''Aqua Security'',
                      RDate := ''2020-07-13 19:43:21 +0000 UTC'',
                      Rego := (Rego zeroRegoPost)\<lparr>Policy := TrimSpace (drop idx rego)\<rparr>\<rparr>
               in Ok (foldl metadataLine rp (Split metadata ''\<newline>''))))"

definition regoPolicyPostTemplate :: "RegoPost \<Rightarrow> string" where
  \<open>regoPolicyPostTemplate rp =
     ''---\<newline>title: "'' @ RTitle rp @ ''"\<newline>date: '' @ RDate rp
     @ ''\<newline>draft: false\<newline>---\<newline>\<newline>### '' @ RID (Rego rp)
     @ ''\<newline>\<newline>### Description\<newline>'' @ RDescription (Rego rp)
     @ ''\<newline>\<newline>### Severity\<newline>'' @ Severity (Rego rp)
     @ ''\<newline>\<newline>### Recommended Actions \<newline>'' @ RecommendedActions (Rego rp)
     @ ''\<newline>\<newline>### Rego Policy\<newline>```\<newline>'' @ Policy (Rego rp) @ ''\<newline>```\<newline>### Links''
     @ concat (map (\<lambda>element. ''\<newline>- '' @ element) (Links (Rego rp))) @ ''\<newline>''\<close>

definition RegoPostToMarkdown :: "RegoPost \<Rightarrow> handle \<Rightarrow> world \<Rightarrow> error option \<times> world" where
  "RegoPostToMarkdown rp outputFile w =
     (case Write outputFile (regoPolicyPostTemplate rp) w of
        (Err e, w') \<Rightarrow> (Some e, w')
      | (Panic, w') \<Rightarrow> (Some ErrWrite, w')
      | (Ok f, w') \<Rightarrow> (None, w'))"

definition regoPolicyPage :: "string \<Rightarrow> string \<Rightarrow> string \<Rightarrow> world \<Rightarrow> outcome" where
  "regoPolicyPage policyDir postsDir file w =
     (case ParseRegoPolicyFile w (Join [policyDir, file]) of
        Err e \<Rightarrow> Done (logEvent (UnableToParse file e) w)
      | Panic \<Rightarrow> Panicked w
      | Ok rp \<Rightarrow>
          (case Create (Join [postsDir, RTitle rp @ ''.md'']) w of
             (Err e, w1) \<Rightarrow> Done (logEvent (UnableToCreate file e) w1)
           | (Panic, w1) \<Rightarrow> Panicked w1
           | (Ok f, w1) \<Rightarrow>
               (case RegoPostToMarkdown rp f w1 of
                  (Some e, w2) \<Rightarrow> Done (logEvent (UnableToWrite file e) w2)
                | (None, w2) \<Rightarrow> Done w2)))"

definition generateRegoPolicyPages :: "string \<Rightarrow> string \<Rightarrow> world \<Rightarrow> outcome" where
  "generateRegoPolicyPages policyDir postsDir w =
     (case GetAllFilesOfKind w policyDir ''rego'' ''_test'' of
        Err e \<Rightarrow> Exited (logEvent (Fatal e) w)
      | Panic \<Rightarrow> Panicked w
      | Ok fs \<Rightarrow> forEach (regoPolicyPage policyDir postsDir) fs w)"

section \<open>The kube-hunter pass\<close>







section \<open>Example inputs\<close>

text \<open>
  Worlds and libraries for the concrete runs below.  A library is given by the table of
  the JSON texts it parses; its numbers are written the way Go prints them back.
\<close>

definition libOf :: "(string \<times> json) list \<Rightarrow> lib" where
  "libOf table =
     \<lparr>fastjson_ParseBytes = map_of table, formatFloat = (\<lambda>r. r), json_Unmarshal = (\<lambda>b. None)\<rparr>"

definition worldOf :: "(string \<times> string) list \<Rightarrow> (string \<times> string list) list \<Rightarrow> world" where
  "worldOf fs ds = \<lparr>files = map_of fs, dirs = map_of ds, blocked = {}, failing = {}, logs = []\<rparr>"

definition exampleText :: string where
  \<open>exampleText = ''{"cve":{"CVE_data_meta":{"ID":"CVE-2020-0001"},"description":{"description_data":[{"lang":"en","value":"Example flaw."}]},"references":{"reference_data":[]}}}''\<close>

definition exampleJSON :: json where
  "exampleJSON =
     JObject [(''cve'', JObject
       [(''CVE_data_meta'', JObject [(''ID'', JString ''CVE-2020-0001'' ''CVE-2020-0001'')]),
        (''description'', JObject [(''description_data'',
           JArray [JObject [(''lang'', JString ''en'' ''en''),
                            (''value'', JString ''Example flaw.'' ''Example flaw.'')]])]),
        (''references'', JObject [(''reference_data'', JArray [])])])]"

definition exampleLib :: lib where
  "exampleLib = libOf [(exampleText, exampleJSON)]"

definition exampleWorld :: world where
  "exampleWorld =
     worldOf [(''vuln-list/nvd/2020/CVE-2020-0001.json'', exampleText)]
       [(''vuln-list/nvd/2020/'', [''CVE-2020-0001.json''])]"

definition exampleBody :: string where
  \<open>exampleBody = ''---\<newline>title: "CVE-2020-0001"\<newline>date: 0001-01-01 12:00:00 +0000\<newline>draft: false\<newline>---\<newline>\<newline>### Description\<newline>Example flaw.\<newline>\<newline>\<newline>\<newline>### CVSS\<newline>| Version | Vector           | Score  |\<newline>| ------------- |:-------------| -----:|\<newline>| V2      |  | 0 |\<newline>| V3      |  | 0 |\<newline>\<newline>### Dates\<newline>- Published: 0001-01-01T00:00Z\<newline>- Modified: 0001-01-01T00:00Z\<newline>\<newline>### References\<newline>\<newline>''\<close>

definition examplePage :: string where
  "examplePage = exampleBody @ marker"

definition examplePost :: VulnerabilityPost where
  "examplePost =
     \<lparr>Layout = ''vulnerability'', Title = ''CVE-2020-0001'', By = ''NVD'',
      Date = ''0001-01-01 12:00:00 +0000'',
      Vulnerability =
        \<lparr>ID = ''CVE-2020-0001'', CWEID = [], CWEInfo = zeroWeaknessType,
         Description = ''Example flaw.'', References = [],
         CVSS = \<lparr>V2Vector = [], V2Score = ''0'', V3Vector = [], V3Score = ''0''\<rparr>,
         Dates = \<lparr>Published = ''0001-01-01T00:00Z'', Modified = ''0001-01-01T00:00Z''\<rparr>\<rparr>\<rparr>"
















definition brokenRego :: string where
  "brokenRego = ''# @title: Broken policy\<newline># @id: KSV001\<newline>deny[msg] { msg := 1 }\<newline>''"

definition soundRego :: string where
  "soundRego = ''# @title: Sound policy\<newline># @description: A sound policy.\<newline># @recommended_actions: Fix it.\<newline># @severity: High\<newline># @id: KSV002\<newline>package main\<newline>\<newline>deny[msg] { msg := 1 }\<newline>''"

definition regoWorld :: world where
  "regoWorld =
     worldOf [(''appshield-repo/policies/kubernetes/policy/a_broken.rego'', brokenRego),
              (''appshield-repo/policies/kubernetes/policy/b_sound.rego'', soundRego),
              (''appshield-repo/policies/kubernetes/policy/b_sound_test.rego'', soundRego)]
       [(''appshield-repo/policies/kubernetes/policy'',
         [''a_broken.rego'', ''b_sound.rego'', ''b_sound_test.rego''])]"

definition soundPost :: RegoPost where
  "soundPost =
     \<lparr>RLayout = ''regoPolicy'', RTitle = ''KSV002'', RBy = ''Aqua Security'',
      RDate = ''2020-07-13 19:43:21 +0000 UTC'',
      Rego = \<lparr>RID = ''Sound policy'', RDescription = ''A sound policy.'', Links = [],
              Severity = ''High'', Policy = ''package main\<newline>\<newline>deny[msg] { msg := 1 }'',
              RecommendedActions = ''Fix it.''\<rparr>\<rparr>"

definition traversalText :: string where
  \<open>traversalText = ''{"cve":{"CVE_data_meta":{"ID":"../x"}}}''\<close>

definition traversalJSON :: json where
  "traversalJSON = JObject [(''cve'', JObject [(''CVE_data_meta'', JObject [(''ID'', JString ''../x'' ''../x'')])])]"

definition traversalLib :: lib where
  "traversalLib = libOf [(traversalText, traversalJSON)]"

definition traversalWorld :: world where
  "traversalWorld =
     worldOf [(''vuln-list/nvd/2020/x.json'', traversalText)] [(''vuln-list/nvd/2020/'', [''x.json''])]"

definition traversalPost :: VulnerabilityPost where
  "traversalPost =
     \<lparr>Layout = ''vulnerability'', Title = ''../x'', By = ''NVD'',
      Date = ''0001-01-01 12:00:00 +0000'',
      Vulnerability =
        \<lparr>ID = ''../x'', CWEID = [], CWEInfo = zeroWeaknessType,
         Description = [], References = [],
         CVSS = \<lparr>V2Vector = [], V2Score = ''0'', V3Vector = [], V3Score = ''0''\<rparr>,
         Dates = \<lparr>Published = ''0001-01-01T00:00Z'', Modified = ''0001-01-01T00:00Z''\<rparr>\<rparr>\<rparr>"















section \<open>Occurrences of a separator\<close>









lemma custom_of_file:
  "files w f = Some c \<Longrightarrow>
   GetCustomContentFromMarkdown w f =
     (if length (Split c marker) \<le> 1 then [] else TrimSpace (Split c marker ! 1))"
  by (auto simp: GetCustomContentFromMarkdown_def ReadFile_def Let_def le_Suc_eq)









section \<open>Writing a page\<close>

lemma writeAt_fresh: "writeAt [] 0 bytes = bytes"
  by (simp add: writeAt_def)

lemma writeAt_end: "writeAt old (length old) bytes = old @ bytes"
  by (simp add: writeAt_def)

lemma writeAt_start: "writeAt old 0 bytes = bytes @ drop (length bytes) old"
  by (simp add: writeAt_def)

lemma custom_of_empty_file: "files w f = Some [] \<Longrightarrow> GetCustomContentFromMarkdown w f = []"
  by (simp add: custom_of_file Split.simps marker_def)

lemma render_to_file:
  assumes "name \<notin> failing w" and "files w name = Some old"
  shows "VulnerabilityPostToMarkdown bp (name, 0) custom (if custom \<noteq> [] then Truncate0 name w else w) =
           (None, w\<lparr>files := (files w)(name \<mapsto>
              (if custom \<noteq> [] then vulnerabilityPostTemplate bp @ ''\<newline>'' @ custom
               else vulnerabilityPostTemplate bp @ drop (length (vulnerabilityPostTemplate bp)) old))\<rparr>)"
  using assms
  by (simp add: VulnerabilityPostToMarkdown_def Write_def Truncate0_def writeAt_fresh writeAt_end
      writeAt_start)


lemma write_page_existing:
  assumes p: "p = Join [postsDir, Title bp @ ''.md'']"
    and "files w p = Some old" and "p \<notin> blocked w" and "p \<notin> failing w"
  shows "writeVulnerabilityPage bp postsDir src w =
           Done (w\<lparr>files := (files w)(p \<mapsto>
             (if GetCustomContentFromMarkdown w p \<noteq> []
              then vulnerabilityPostTemplate bp @ ''\<newline>'' @ GetCustomContentFromMarkdown w p
              else vulnerabilityPostTemplate bp @ drop (length (vulnerabilityPostTemplate bp)) old))\<rparr>)"
proof -
  from assms have opened: "OpenFile p w = (Ok (p, 0), w)"
    by (simp add: OpenFile_def)
  show ?thesis
  proof (cases "GetCustomContentFromMarkdown w p = []")
    case True
    with render_to_file [OF assms(4) assms(2), of bp "[]"] show ?thesis
      unfolding writeVulnerabilityPage_def p [symmetric] opened
      by (simp add: Let_def)
  next
    case False
    with render_to_file [OF assms(4) assms(2), of bp "GetCustomContentFromMarkdown w p"]
    show ?thesis
      unfolding writeVulnerabilityPage_def p [symmetric] opened
      by (simp add: Let_def)
  qed
qed

lemma write_page_fresh:
  assumes p: "p = Join [postsDir, Title bp @ ''.md'']"
    and "files w p = None" and "p \<notin> blocked w" and "p \<notin> failing w"
  shows "writeVulnerabilityPage bp postsDir src w =
           Done (w\<lparr>files := (files w)(p \<mapsto> vulnerabilityPostTemplate bp)\<rparr>)"
proof -
  let ?w1 = "w\<lparr>files := (files w)(p \<mapsto> [])\<rparr>"
  from assms have opened: "OpenFile p w = (Ok (p, 0), ?w1)"
    by (simp add: OpenFile_def)
  have custom: "GetCustomContentFromMarkdown ?w1 p = []"
    by (rule custom_of_empty_file) simp
  from assms(4) have "p \<notin> failing ?w1" by simp
  moreover have "files ?w1 p = Some []" by simp
  ultimately have "VulnerabilityPostToMarkdown bp (p, 0) [] ?w1 =
      (None, ?w1\<lparr>files := (files ?w1)(p \<mapsto> vulnerabilityPostTemplate bp)\<rparr>)"
    using render_to_file [of p ?w1 "[]" bp "[]"] by simp
  then show ?thesis
    unfolding writeVulnerabilityPage_def p [symmetric] opened
    by (simp add: custom)
qed




lemma cwe_absent:
  "files w (Join [cweDir, CWEID (Vulnerability bp) @ ''.json'']) = None \<Longrightarrow>
   AddCWEInformation l w bp cweDir = (Some ErrNotExist, bp)"
  by (simp add: AddCWEInformation_def ReadFile_def)

lemma page_without_cwe:
  assumes "ParseVulnerabilityJSONFile l w (Join [nvdDir, src]) = Ok bp"
    and "files w (Join [cweDir, CWEID (Vulnerability bp) @ ''.json'']) = None"
  shows "vulnerabilityPage l nvdDir cweDir postsDir src w = writeVulnerabilityPage bp postsDir src w"
  using assms by (simp add: vulnerabilityPage_def cwe_absent)

lemma pass_single:
  "dirs w nvdDir = Some [src] \<Longrightarrow>
   generateVulnerabilityPages l nvdDir cweDir postsDir w = vulnerabilityPage l nvdDir cweDir postsDir src w"
  by (simp add: generateVulnerabilityPages_def GetAllFiles_def ReadDir_def split: outcome.splits)

section \<open>What a parsed record holds\<close>

lemma parse_fields:
  assumes "ParseVulnerabilityJSONFile l w f = Ok bp"
  obtains b v refs where "files w f = Some b" and "fastjson_ParseBytes l b = Some v"
    and "referenceURLs (GetArray v [''cve'', ''references'', ''reference_data'']) = Ok refs"
    and "Title bp = GetStringBytes v [''cve'', ''CVE_data_meta'', ''ID'']"
    and "Description (Vulnerability bp) = removeBytes [CHR 0x22, CHR 0x5C]
           (GetStringBytes v [''cve'', ''description'', ''description_data'', ''0'', ''value''])"
    and "References (Vulnerability bp) = refs"
    and "CWEInfo (Vulnerability bp) = zeroWeaknessType"
    and "Published (Dates (Vulnerability bp)) =
           formatStamp (case time_Parse (GetStringBytes v [''publishedDate'']) of None \<Rightarrow> zeroTime | Some t \<Rightarrow> t)"
    and "Modified (Dates (Vulnerability bp)) =
           formatStamp (case time_Parse (GetStringBytes v [''lastModifiedDate'']) of None \<Rightarrow> zeroTime | Some t \<Rightarrow> t)"
  using assms
  by (auto simp: ParseVulnerabilityJSONFile_def ReadFile_def Let_def
      split: option.splits result.splits)





lemma write_page_done: "\<exists>w'. writeVulnerabilityPage bp postsDir src w = Done w'"
  by (auto simp: writeVulnerabilityPage_def OpenFile_def Let_def split: option.splits prod.splits)

lemma write_page_written:
  assumes p: "p = Join [postsDir, Title bp @ ''.md'']" and "p \<notin> blocked w" and "p \<notin> failing w"
  shows "\<exists>w' rest. writeVulnerabilityPage bp postsDir src w = Done w'
           \<and> files w' p = Some (vulnerabilityPostTemplate bp @ rest)
           \<and> (\<forall>q. q \<noteq> p \<longrightarrow> files w' q = files w q)"
proof (cases "files w p")
  case None
  from write_page_fresh [OF p None assms(2,3), where src = src] show ?thesis
    by (intro exI [of _ "w\<lparr>files := (files w)(p \<mapsto> vulnerabilityPostTemplate bp)\<rparr>"] exI [of _ "[]"]) simp
next
  case (Some old)
  show ?thesis
  proof (cases "GetCustomContentFromMarkdown w p = []")
    case True
    with write_page_existing [OF p Some assms(2,3), where src = src] show ?thesis
      by (intro exI [of _ "w\<lparr>files := (files w)(p \<mapsto> vulnerabilityPostTemplate bp
              @ drop (length (vulnerabilityPostTemplate bp)) old)\<rparr>"]
            exI [of _ "drop (length (vulnerabilityPostTemplate bp)) old"]) simp
  next
    case False
    with write_page_existing [OF p Some assms(2,3), where src = src] show ?thesis
      by (intro exI [of _ "w\<lparr>files := (files w)(p \<mapsto> vulnerabilityPostTemplate bp
              @ ''\<newline>'' @ GetCustomContentFromMarkdown w p)\<rparr>"]
            exI [of _ "''\<newline>'' @ GetCustomContentFromMarkdown w p"]) simp
  qed
qed

lemma no_weakness_sections: "cweSections zeroWeaknessType = []"
  by (simp add: cweSections_def zeroWeaknessType_def)

lemma rego_page_written:
  assumes "ParseRegoPolicyFile w (Join [policyDir, src]) = Ok rp"
    and p: "p = Join [postsDir, RTitle rp @ ''.md'']" and "p \<notin> blocked w" and "p \<notin> failing w"
  shows "regoPolicyPage policyDir postsDir src w =
           Done (w\<lparr>files := (files w)(p \<mapsto> regoPolicyPostTemplate rp)\<rparr>)"
  using assms
  by (simp add: regoPolicyPage_def Create_def RegoPostToMarkdown_def Write_def writeAt_fresh)

section \<open>Cleaned paths\<close>

lemma splitOn_none: "c \<notin> set s \<Longrightarrow> splitOn c s = [s]"
  by (induction s) auto

lemma splitOn_append: "c \<notin> set a \<Longrightarrow> splitOn c (a @ c # b) = a # splitOn c b"
  by (induction a) auto

lemma joinWith_snoc: "ds \<noteq> [] \<Longrightarrow> joinWith sep (ds @ [n]) = joinWith sep ds @ sep @ n"
  by (induction sep ds rule: joinWith.induct) auto

lemma splitOn_joinWith:
  "ds \<noteq> [] \<Longrightarrow> \<forall>d\<in>set ds. c \<notin> set d \<Longrightarrow> splitOn c (joinWith [c] ds) = ds"
proof (induction "[c]" ds rule: joinWith.induct)
  case 1
  then show ?case by simp
next
  case (2 x)
  then show ?case by (simp add: splitOn_none)
next
  case (3 x y ys)
  then show ?case by (simp add: splitOn_append)
qed

lemma foldl_cleanStep:
  "\<forall>d\<in>set ds. d \<noteq> [] \<and> d \<noteq> ''.'' \<and> d \<noteq> ''..'' \<Longrightarrow> foldl (cleanStep r) st ds = rev ds @ st"
  by (induction ds arbitrary: st) (auto simp: cleanStep_def)

lemma Clean_regular:
  assumes "ds \<noteq> []" and "\<forall>d\<in>set ds. d \<noteq> [] \<and> CHR ''/'' \<notin> set d \<and> d \<noteq> ''.'' \<and> d \<noteq> ''..''"
  shows "Clean (joinWith ''/'' ds) = joinWith ''/'' ds"
proof -
  from assms obtain d ds' where ds: "ds = d # ds'" and d: "d \<noteq> []" "CHR ''/'' \<notin> set d"
    by (cases ds) auto
  then have nonempty: "joinWith ''/'' ds \<noteq> []" and first: "hd (joinWith ''/'' ds) = hd d"
    by (cases ds'; simp)+
  from d have "hd d \<noteq> CHR ''/''" by (cases d) auto
  with first have unrooted: "hd (joinWith ''/'' ds) \<noteq> CHR ''/''" by simp
  from assms have "splitOn CHR ''/'' (joinWith ''/'' ds) = ds"
    by (intro splitOn_joinWith) auto
  moreover from assms(2) have "foldl (cleanStep False) [] ds = rev ds @ []"
    by (intro foldl_cleanStep) auto
  ultimately show ?thesis
    using nonempty unrooted by (simp add: Clean_def)
qed

lemma Join_regular:
  assumes "ds \<noteq> []" and "\<forall>d\<in>set ds. d \<noteq> [] \<and> CHR ''/'' \<notin> set d \<and> d \<noteq> ''.'' \<and> d \<noteq> ''..''"
    and "n \<noteq> []" and "CHR ''/'' \<notin> set n" and "n \<noteq> ''.''" and "n \<noteq> ''..''"
  shows "Join [joinWith ''/'' ds, n] = joinWith ''/'' ds @ ''/'' @ n"
proof -
  from assms(1,2) obtain d ds' where ds: "ds = d # ds'" and d: "d \<noteq> []"
    by (cases ds) auto
  then have nonempty: "joinWith ''/'' ds \<noteq> []"
    by (cases ds'; simp)
  have "Clean (joinWith ''/'' (ds @ [n])) = joinWith ''/'' (ds @ [n])"
    using assms by (intro Clean_regular) auto
  with assms(1) have "Clean (joinWith ''/'' ds @ ''/'' @ n) = joinWith ''/'' ds @ ''/'' @ n"
    by (simp add: joinWith_snoc)
  with nonempty show ?thesis
    by (simp add: Join_def)
qed

lemma md_name_regular:
  "ident @ ''.md'' \<noteq> [] \<and> ident @ ''.md'' \<noteq> ''.'' \<and> ident @ ''.md'' \<noteq> ''..''"
proof -
  have "length (ident @ ''.md'') \<noteq> length ''.''" and "length (ident @ ''.md'') \<noteq> length ''..''"
    by simp_all
  then show ?thesis by fastforce
qed

lemma page_path:
  assumes "CHR ''/'' \<notin> set ident"
  shows "Join [''content/nvd'', ident @ ''.md''] = ''content/nvd/'' @ ident @ ''.md''"
    and "Join [''content/appshield'', ident @ ''.md''] = ''content/appshield/'' @ ident @ ''.md''"
proof -
  from assms have n: "CHR ''/'' \<notin> set (ident @ ''.md'')" by simp
  have "Join [joinWith ''/'' [''content'', ''nvd''], ident @ ''.md'']
      = joinWith ''/'' [''content'', ''nvd''] @ ''/'' @ ident @ ''.md''"
    using md_name_regular [of ident] n by (intro Join_regular) simp_all
  then show "Join [''content/nvd'', ident @ ''.md''] = ''content/nvd/'' @ ident @ ''.md''"
    by simp
  have "Join [joinWith ''/'' [''content'', ''appshield''], ident @ ''.md'']
      = joinWith ''/'' [''content'', ''appshield''] @ ''/'' @ ident @ ''.md''"
    using md_name_regular [of ident] n by (intro Join_regular) simp_all
  then show "Join [''content/appshield'', ident @ ''.md''] = ''content/appshield/'' @ ident @ ''.md''"
    by simp
qed







section \<open>Failing output files\<close>








section \<open>The example worlds, step by step\<close>

lemma example_parse:
  "ParseVulnerabilityJSONFile exampleLib exampleWorld ''vuln-list/nvd/2020/CVE-2020-0001.json'' = Ok examplePost"
  by code_simp

lemma example_template: "vulnerabilityPostTemplate examplePost = examplePage"
  by code_simp





lemma example_path: "Join [''content/nvd'', Title examplePost @ ''.md''] = ''content/nvd/CVE-2020-0001.md''"
  by code_simp


lemma example_source: "Join [''vuln-list/nvd/2020/'', ''CVE-2020-0001.json''] = ''vuln-list/nvd/2020/CVE-2020-0001.json''"
  by code_simp


lemma no_cwe_path: "Join [''vuln-list/cwe'', ''.json''] = ''vuln-list/cwe/.json''"
  by code_simp








lemma example_world_facts:
  "dirs exampleWorld ''vuln-list/nvd/2020/'' = Some [''CVE-2020-0001.json'']"
  "files exampleWorld ''vuln-list/cwe/.json'' = None"
  "files exampleWorld ''content/nvd/CVE-2020-0001.md'' = None"
  "''content/nvd/CVE-2020-0001.md'' \<notin> blocked exampleWorld"
  "''content/nvd/CVE-2020-0001.md'' \<notin> failing exampleWorld"
  by (simp_all add: exampleWorld_def worldOf_def)





lemma example_cwe_absent:
  "files exampleWorld (Join [''vuln-list/cwe'', CWEID (Vulnerability examplePost) @ ''.json'']) = None"
  by (simp add: examplePost_def no_cwe_path example_world_facts)

lemma rego_listing:
  "GetAllFilesOfKind regoWorld ''appshield-repo/policies/kubernetes/policy'' ''rego'' ''_test''
     = Ok [''a_broken.rego'', ''b_sound.rego'']"
  by code_simp

lemma rego_sources:
  "Join [''appshield-repo/policies/kubernetes/policy'', ''a_broken.rego'']
     = ''appshield-repo/policies/kubernetes/policy/a_broken.rego''"
  "Join [''appshield-repo/policies/kubernetes/policy'', ''b_sound.rego'']
     = ''appshield-repo/policies/kubernetes/policy/b_sound.rego''"
  "Join [''content/appshield'', RTitle soundPost @ ''.md''] = ''content/appshield/KSV002.md''"
  by code_simp+

lemma broken_parse:
  "ParseRegoPolicyFile regoWorld ''appshield-repo/policies/kubernetes/policy/a_broken.rego'' = Panic"
  by code_simp

lemma sound_parse:
  "ParseRegoPolicyFile regoWorld ''appshield-repo/policies/kubernetes/policy/b_sound.rego'' = Ok soundPost"
  by code_simp

lemma sound_title: "CHR ''/'' \<notin> set (RTitle soundPost) \<and> RTitle soundPost = ''KSV002''"
  by (simp add: soundPost_def)

lemma example_title: "CHR ''/'' \<notin> set (Title examplePost) \<and> Title examplePost = ''CVE-2020-0001''"
  by (simp add: examplePost_def)

lemma sound_parse_joined:
  "ParseRegoPolicyFile regoWorld (Join [''appshield-repo/policies/kubernetes/policy'', ''b_sound.rego''])
      = Ok soundPost"
  by (simp add: rego_sources sound_parse)

lemma rego_world_writable:
  "''content/appshield/KSV002.md'' \<notin> blocked regoWorld" "''content/appshield/KSV002.md'' \<notin> failing regoWorld"
  by (simp_all add: regoWorld_def worldOf_def)

lemma traversal_parse:
  "ParseVulnerabilityJSONFile traversalLib traversalWorld ''vuln-list/nvd/2020/x.json'' = Ok traversalPost"
  by code_simp

lemma traversal_paths:
  "Join [''vuln-list/nvd/2020/'', ''x.json''] = ''vuln-list/nvd/2020/x.json''"
  "Join [''content/nvd'', Title traversalPost @ ''.md''] = ''content/x.md''"
  by code_simp+

lemma traversal_world_facts:
  "dirs traversalWorld ''vuln-list/nvd/2020/'' = Some [''x.json'']"
  "files traversalWorld ''vuln-list/cwe/.json'' = None"
  "files traversalWorld ''content/x.md'' = None"
  "''content/x.md'' \<notin> blocked traversalWorld"
  "''content/x.md'' \<notin> failing traversalWorld"
  by (simp_all add: traversalWorld_def worldOf_def)








section \<open>Regeneration over an edited page\<close>




section \<open>Running the generator twice\<close>




section \<open>A policy file without a package line\<close>

text \<open>
  C3 fails in the Rego pass.  The policy directory lists a file without
  \<open>package main\<close>, a sound policy and a test file.  The test file is filtered out; the
  parse of the first file panics; the pass ends in that panic with the world untouched,
  so the page of the sound policy is not written, although the loop body, run on that
  file alone, writes it.
\<close>

theorem rego_without_package_halts_pass:
  "GetAllFilesOfKind regoWorld ''appshield-repo/policies/kubernetes/policy'' ''rego'' ''_test''
     = Ok [''a_broken.rego'', ''b_sound.rego'']
   \<and> ParseRegoPolicyFile regoWorld ''appshield-repo/policies/kubernetes/policy/a_broken.rego'' = Panic
   \<and> generateRegoPolicyPages ''appshield-repo/policies/kubernetes/policy'' ''content/appshield'' regoWorld
       = Panicked regoWorld
   \<and> files regoWorld ''content/appshield/KSV002.md'' = None
   \<and> regoPolicyPage ''appshield-repo/policies/kubernetes/policy'' ''content/appshield'' ''b_sound.rego''
         regoWorld
       = Done (regoWorld\<lparr>files := (files regoWorld)
                 (''content/appshield/KSV002.md'' \<mapsto> regoPolicyPostTemplate soundPost)\<rparr>)"
proof (intro conjI)
  show "GetAllFilesOfKind regoWorld ''appshield-repo/policies/kubernetes/policy'' ''rego'' ''_test''
     = Ok [''a_broken.rego'', ''b_sound.rego'']"
    by (rule rego_listing)
  show "ParseRegoPolicyFile regoWorld ''appshield-repo/policies/kubernetes/policy/a_broken.rego'' = Panic"
    by (rule broken_parse)
  show "generateRegoPolicyPages ''appshield-repo/policies/kubernetes/policy'' ''content/appshield'' regoWorld
       = Panicked regoWorld"
    by (simp add: generateRegoPolicyPages_def rego_listing regoPolicyPage_def rego_sources broken_parse)
  show "files regoWorld ''content/appshield/KSV002.md'' = None"
    by (simp add: regoWorld_def worldOf_def)
  have "ParseRegoPolicyFile regoWorld (Join [''appshield-repo/policies/kubernetes/policy'', ''b_sound.rego''])
      = Ok soundPost"
    by (simp add: rego_sources sound_parse)
  then show "regoPolicyPage ''appshield-repo/policies/kubernetes/policy'' ''content/appshield'' ''b_sound.rego''
         regoWorld
       = Done (regoWorld\<lparr>files := (files regoWorld)
                 (''content/appshield/KSV002.md'' \<mapsto> regoPolicyPostTemplate soundPost)\<rparr>)"
    by (rule rego_page_written) (simp_all add: rego_sources regoWorld_def worldOf_def)
qed

section \<open>A record without weakness data\<close>

text \<open>
  C4.  The record parses and the directory of weaknesses has no file for its CWE
  identifier.  Then \<open>AddCWEInformation\<close> returns an error and leaves the record as it
  is; the loop body goes on to write the page and ends normally; the page has no
  weakness section, its text being the front matter, description, CVSS, dates and
  references only; and when the output file can be opened and written, it holds the
  rendered page from its first byte on.
\<close>

theorem missing_cwe_is_tolerated:
  assumes parse: "ParseVulnerabilityJSONFile l w (Join [nvdDir, src]) = Ok bp"
    and absent: "files w (Join [cweDir, CWEID (Vulnerability bp) @ ''.json'']) = None"
  shows "AddCWEInformation l w bp cweDir = (Some ErrNotExist, bp)
     \<and> cweSections (CWEInfo (Vulnerability (snd (AddCWEInformation l w bp cweDir)))) = []
     \<and> vulnerabilityPostTemplate bp =
         frontMatter bp @ descriptionSection (Vulnerability bp) @ cvssSection (CVSS (Vulnerability bp))
         @ datesSection (Dates (Vulnerability bp)) @ referencesSection (References (Vulnerability bp))
         @ ''\<newline>\<newline>'' @ marker
     \<and> (\<exists>w'. vulnerabilityPage l nvdDir cweDir postsDir src w = Done w'
           \<and> (Join [postsDir, Title bp @ ''.md''] \<notin> blocked w
                \<and> Join [postsDir, Title bp @ ''.md''] \<notin> failing w
               \<longrightarrow> (\<exists>rest. files w' (Join [postsDir, Title bp @ ''.md''])
                             = Some (vulnerabilityPostTemplate bp @ rest))))"
proof (intro conjI)
  from absent show unchanged: "AddCWEInformation l w bp cweDir = (Some ErrNotExist, bp)"
    by (rule cwe_absent)
  from parse have zero: "CWEInfo (Vulnerability bp) = zeroWeaknessType"
    by (rule parse_fields)
  then show "cweSections (CWEInfo (Vulnerability (snd (AddCWEInformation l w bp cweDir)))) = []"
    by (simp add: unchanged no_weakness_sections)
  from zero show "vulnerabilityPostTemplate bp =
         frontMatter bp @ descriptionSection (Vulnerability bp) @ cvssSection (CVSS (Vulnerability bp))
         @ datesSection (Dates (Vulnerability bp)) @ referencesSection (References (Vulnerability bp))
         @ ''\<newline>\<newline>'' @ marker"
    by (simp add: vulnerabilityPostTemplate_def Let_def no_weakness_sections)
  define p where "p = Join [postsDir, Title bp @ ''.md'']"
  have step: "vulnerabilityPage l nvdDir cweDir postsDir src w = writeVulnerabilityPage bp postsDir src w"
    using parse absent by (rule page_without_cwe)
  show "\<exists>w'. vulnerabilityPage l nvdDir cweDir postsDir src w = Done w'
           \<and> (Join [postsDir, Title bp @ ''.md''] \<notin> blocked w
                \<and> Join [postsDir, Title bp @ ''.md''] \<notin> failing w
               \<longrightarrow> (\<exists>rest. files w' (Join [postsDir, Title bp @ ''.md''])
                             = Some (vulnerabilityPostTemplate bp @ rest)))"
  proof (cases "p \<notin> blocked w \<and> p \<notin> failing w")
    case True
    with write_page_written [OF p_def, where src = src and w = w]
    obtain w' rest where "writeVulnerabilityPage bp postsDir src w = Done w'"
      and "files w' p = Some (vulnerabilityPostTemplate bp @ rest)"
      by blast
    then show ?thesis unfolding step p_def by blast
  next
    case False
    from write_page_done obtain w' where "writeVulnerabilityPage bp postsDir src w = Done w'"
      by blast
    with False show ?thesis unfolding step p_def by blast
  qed
qed

text \<open>The example record: its CWE identifier is empty and \<open>vuln-list/cwe/.json\<close> does not exist.\<close>

theorem missing_cwe_is_tolerated_witness:
  "AddCWEInformation exampleLib exampleWorld examplePost ''vuln-list/cwe'' = (Some ErrNotExist, examplePost)
   \<and> vulnerabilityPostTemplate examplePost =
         frontMatter examplePost @ descriptionSection (Vulnerability examplePost)
         @ cvssSection (CVSS (Vulnerability examplePost)) @ datesSection (Dates (Vulnerability examplePost))
         @ referencesSection (References (Vulnerability examplePost)) @ ''\<newline>\<newline>'' @ marker
   \<and> (\<exists>w'. vulnerabilityPage exampleLib ''vuln-list/nvd/2020/'' ''vuln-list/cwe'' ''content/nvd''
               ''CVE-2020-0001.json'' exampleWorld = Done w'
          \<and> (\<exists>rest. files w' ''content/nvd/CVE-2020-0001.md'' = Some (examplePage @ rest)))"
proof -
  have parse: "ParseVulnerabilityJSONFile exampleLib exampleWorld
      (Join [''vuln-list/nvd/2020/'', ''CVE-2020-0001.json'']) = Ok examplePost"
    by (simp add: example_source example_parse)
  from missing_cwe_is_tolerated [OF parse example_cwe_absent, where postsDir = "''content/nvd''"]
  show ?thesis
    by (simp add: example_path example_world_facts example_template)
qed

section \<open>What the page shows of the record\<close>




section \<open>Output files that cannot be written\<close>




section \<open>The name of the output file\<close>

text \<open>
  C7, as amended.  The output path is \<open>filepath.Join\<close> of the output directory and the
  identifier followed by \<open>.md\<close>, so equal identifiers give equal paths.  For the two
  output directories of \<open>main\<close> and an identifier without a slash, that path is the
  directory, a slash, the identifier and \<open>.md\<close>: the vulnerability page is written
  there and no other file changes, and so is the page of a parsed Rego policy.
\<close>

theorem page_is_named_after_identifier:
  "(CHR ''/'' \<notin> set (Title bp) \<longrightarrow>
      Join [''content/nvd'', Title bp @ ''.md''] = ''content/nvd/'' @ Title bp @ ''.md''
      \<and> (''content/nvd/'' @ Title bp @ ''.md'' \<notin> blocked w
           \<and> ''content/nvd/'' @ Title bp @ ''.md'' \<notin> failing w \<longrightarrow>
          (\<exists>w' rest. writeVulnerabilityPage bp ''content/nvd'' src w = Done w'
             \<and> files w' (''content/nvd/'' @ Title bp @ ''.md'') = Some (vulnerabilityPostTemplate bp @ rest)
             \<and> (\<forall>q. q \<noteq> ''content/nvd/'' @ Title bp @ ''.md'' \<longrightarrow> files w' q = files w q))))
   \<and> (CHR ''/'' \<notin> set (RTitle rp) \<longrightarrow>
      Join [''content/appshield'', RTitle rp @ ''.md''] = ''content/appshield/'' @ RTitle rp @ ''.md''
      \<and> (ParseRegoPolicyFile w (Join [policyDir, src]) = Ok rp
           \<and> ''content/appshield/'' @ RTitle rp @ ''.md'' \<notin> blocked w
           \<and> ''content/appshield/'' @ RTitle rp @ ''.md'' \<notin> failing w \<longrightarrow>
          regoPolicyPage policyDir ''content/appshield'' src w =
            Done (w\<lparr>files := (files w)(''content/appshield/'' @ RTitle rp @ ''.md''
                                        \<mapsto> regoPolicyPostTemplate rp)\<rparr>)))
   \<and> (Title bp = Title bp' \<longrightarrow>
        Join [postsDir, Title bp @ ''.md''] = Join [postsDir, Title bp' @ ''.md''])
   \<and> (RTitle rp = RTitle rp' \<longrightarrow>
        Join [postsDir, RTitle rp @ ''.md''] = Join [postsDir, RTitle rp' @ ''.md''])"
proof (intro conjI impI)
  assume t: "CHR ''/'' \<notin> set (Title bp)"
  then show p: "Join [''content/nvd'', Title bp @ ''.md''] = ''content/nvd/'' @ Title bp @ ''.md''"
    by (rule page_path)
  assume "''content/nvd/'' @ Title bp @ ''.md'' \<notin> blocked w
           \<and> ''content/nvd/'' @ Title bp @ ''.md'' \<notin> failing w"
  then show "\<exists>w' rest. writeVulnerabilityPage bp ''content/nvd'' src w = Done w'
             \<and> files w' (''content/nvd/'' @ Title bp @ ''.md'') = Some (vulnerabilityPostTemplate bp @ rest)
             \<and> (\<forall>q. q \<noteq> ''content/nvd/'' @ Title bp @ ''.md'' \<longrightarrow> files w' q = files w q)"
    using write_page_written [OF p [symmetric], where src = src and w = w] by simp
next
  assume t: "CHR ''/'' \<notin> set (RTitle rp)"
  then show p: "Join [''content/appshield'', RTitle rp @ ''.md''] = ''content/appshield/'' @ RTitle rp @ ''.md''"
    by (rule page_path)
  assume "ParseRegoPolicyFile w (Join [policyDir, src]) = Ok rp
           \<and> ''content/appshield/'' @ RTitle rp @ ''.md'' \<notin> blocked w
           \<and> ''content/appshield/'' @ RTitle rp @ ''.md'' \<notin> failing w"
  then show "regoPolicyPage policyDir ''content/appshield'' src w =
            Done (w\<lparr>files := (files w)(''content/appshield/'' @ RTitle rp @ ''.md''
                                        \<mapsto> regoPolicyPostTemplate rp)\<rparr>)"
    using rego_page_written [OF _ p [symmetric], where src = src and w = w and policyDir = policyDir]
    by simp
next
  assume "Title bp = Title bp'"
  then show "Join [postsDir, Title bp @ ''.md''] = Join [postsDir, Title bp' @ ''.md'']" by simp
next
  assume "RTitle rp = RTitle rp'"
  then show "Join [postsDir, RTitle rp @ ''.md''] = Join [postsDir, RTitle rp' @ ''.md'']" by simp
qed

text \<open>The example record and the sound policy.\<close>

theorem page_is_named_after_identifier_witness:
  "Join [''content/nvd'', Title examplePost @ ''.md''] = ''content/nvd/CVE-2020-0001.md''
   \<and> (\<exists>w' rest. writeVulnerabilityPage examplePost ''content/nvd'' ''CVE-2020-0001.json'' exampleWorld = Done w'
         \<and> files w' ''content/nvd/CVE-2020-0001.md'' = Some (vulnerabilityPostTemplate examplePost @ rest))
   \<and> Join [''content/appshield'', RTitle soundPost @ ''.md''] = ''content/appshield/KSV002.md''
   \<and> regoPolicyPage ''appshield-repo/policies/kubernetes/policy'' ''content/appshield'' ''b_sound.rego''
         regoWorld =
       Done (regoWorld\<lparr>files := (files regoWorld)(''content/appshield/KSV002.md''
                                        \<mapsto> regoPolicyPostTemplate soundPost)\<rparr>)"
proof -
  note vuln = page_is_named_after_identifier [of examplePost exampleWorld "''CVE-2020-0001.json''" soundPost
      "''appshield-repo/policies/kubernetes/policy''" examplePost "[]" soundPost]
  note rego = page_is_named_after_identifier [of examplePost regoWorld "''b_sound.rego''" soundPost
      "''appshield-repo/policies/kubernetes/policy''" examplePost "[]" soundPost]
  from vuln example_title
  have "Join [''content/nvd'', Title examplePost @ ''.md''] = ''content/nvd/CVE-2020-0001.md''"
    by simp
  moreover from vuln example_title example_world_facts(4,5)
  have "\<exists>w' rest. writeVulnerabilityPage examplePost ''content/nvd'' ''CVE-2020-0001.json'' exampleWorld = Done w'
         \<and> files w' ''content/nvd/CVE-2020-0001.md'' = Some (vulnerabilityPostTemplate examplePost @ rest)"
    by simp metis
  moreover from rego sound_title
  have "Join [''content/appshield'', RTitle soundPost @ ''.md''] = ''content/appshield/KSV002.md''"
    by simp
  moreover from rego sound_title sound_parse_joined rego_world_writable
  have "regoPolicyPage ''appshield-repo/policies/kubernetes/policy'' ''content/appshield'' ''b_sound.rego''
         regoWorld =
       Done (regoWorld\<lparr>files := (files regoWorld)(''content/appshield/KSV002.md''
                                        \<mapsto> regoPolicyPostTemplate soundPost)\<rparr>)"
    by simp
  ultimately show ?thesis by (intro conjI)
qed

text \<open>
  C7 as stated fails for an identifier with path elements: \<open>filepath.Join\<close> cleans the
  path, and the page of the record \<open>../x\<close> is \<open>content/x.md\<close>, outside the output
  directory.
\<close>

theorem page_outside_output_directory:
  "ParseVulnerabilityJSONFile traversalLib traversalWorld ''vuln-list/nvd/2020/x.json'' = Ok traversalPost
   \<and> Title traversalPost = ''../x''
   \<and> generateVulnerabilityPages traversalLib ''vuln-list/nvd/2020/'' ''vuln-list/cwe'' ''content/nvd''
         traversalWorld =
       Done (traversalWorld\<lparr>files := (files traversalWorld)
               (''content/x.md'' \<mapsto> vulnerabilityPostTemplate traversalPost)\<rparr>)
   \<and> ''content/x.md'' \<noteq> ''content/nvd/'' @ Title traversalPost @ ''.md''
   \<and> ((files traversalWorld)(''content/x.md'' \<mapsto> vulnerabilityPostTemplate traversalPost))
         (''content/nvd/'' @ Title traversalPost @ ''.md'') = None"
proof (intro conjI)
  show "ParseVulnerabilityJSONFile traversalLib traversalWorld ''vuln-list/nvd/2020/x.json'' = Ok traversalPost"
    by (rule traversal_parse)
  show "Title traversalPost = ''../x''" by (simp add: traversalPost_def)
  show "''content/x.md'' \<noteq> ''content/nvd/'' @ Title traversalPost @ ''.md''"
    by (simp add: traversalPost_def)
  show "((files traversalWorld)(''content/x.md'' \<mapsto> vulnerabilityPostTemplate traversalPost))
         (''content/nvd/'' @ Title traversalPost @ ''.md'') = None"
    by (simp add: traversalPost_def traversalWorld_def worldOf_def)
  have c: "CWEID (Vulnerability traversalPost) @ ''.json'' = ''.json''"
    by (simp add: traversalPost_def)
  have "vulnerabilityPage traversalLib ''vuln-list/nvd/2020/'' ''vuln-list/cwe'' ''content/nvd''
          ''x.json'' traversalWorld
        = writeVulnerabilityPage traversalPost ''content/nvd'' ''x.json'' traversalWorld"
    by (rule page_without_cwe) (simp_all add: traversal_paths traversal_parse c no_cwe_path traversal_world_facts)
  also have "\<dots> = Done (traversalWorld\<lparr>files := (files traversalWorld)
               (''content/x.md'' \<mapsto> vulnerabilityPostTemplate traversalPost)\<rparr>)"
    by (rule write_page_fresh) (simp_all add: traversal_paths traversal_world_facts)
  finally show "generateVulnerabilityPages traversalLib ''vuln-list/nvd/2020/'' ''vuln-list/cwe'' ''content/nvd''
         traversalWorld =
       Done (traversalWorld\<lparr>files := (files traversalWorld)
               (''content/x.md'' \<mapsto> vulnerabilityPostTemplate traversalPost)\<rparr>)"
    by (simp add: pass_single [OF traversal_world_facts(1)])
qed

section \<open>Parse and render of the example record\<close>

text \<open>
  C8.  The JSON record with identifier \<open>CVE-2020-0001\<close>, description
  \<open>Example flaw.\<close> and no references: the pass over its directory ends normally, logs
  nothing and writes \<open>content/nvd/CVE-2020-0001.md\<close>.  The page is the text
  \<open>examplePage\<close>: the line after \<open>### Description\<close> is \<open>Example flaw.\<close>, and
  nothing stands between \<open>### References\<close> and the marker but an empty line.
\<close>

theorem example_record_page:
  "(case generateVulnerabilityPages exampleLib ''vuln-list/nvd/2020/'' ''vuln-list/cwe''
           ''content/nvd'' exampleWorld of
      Done w \<Rightarrow> files w ''content/nvd/CVE-2020-0001.md'' = Some examplePage \<and> logs w = []
    | _ \<Rightarrow> False)
   \<and> Contains examplePage ''### Description\<newline>Example flaw.\<newline>\<newline>''
   \<and> Contains examplePage (''\<newline>### References\<newline>\<newline>'' @ marker)"
  by code_simp

section \<open>What is preserved of an existing page\<close>



section \<open>Dates that do not parse\<close>


end
